theory Spec2Isabelle
  imports Complex_Main
begin

section \<open>The document store\<close>

text \<open>
  The server keeps two MongoDB collections, \<open>user_infos\<close> (models/user_info.js) and
  \<open>todos\<close> (models/todo.js). A collection is a list of documents in insertion order,
  which is the order \<open>findOne\<close> and \<open>find\<close> see. An ObjectId is a natural number
  (the 96-bit value); the strings a client sends for one are parsed, see \<open>ObjectId_parse\<close>.

  Every field of the todo schema is optional in Mongoose (none is \<open>required\<close>), and the
  create route builds a todo from the request body before it assigns the owner, so the
  fields of a todo other than \<open>_id\<close> are options. A user document is only ever built
  by sign-up with its four fields given, so they are plain values. The version key
  \<open>__v\<close> that Mongoose adds to every document is left out.
\<close>

type_synonym oid = nat

record user_info =
  u_id :: oid
  email :: string
  password :: string
  username :: string
  u_createdTime :: string

record todo =
  t_id :: oid
  content :: "string option"
  createdTime :: "string option"
  userId :: "oid option"

record store =
  user_infos :: "user_info list"
  todos :: "todo list"

text \<open>
  Every store call is awaited inside \<open>try\<close>. The promise either resolves, or rejects with
  an error whose \<open>message\<close> the \<open>catch\<close> block sends back with status 500. Whether the
  driver fails (connection lost, time-out) is outside the program: each call takes the
  outcome the driver reports, \<open>None\<close> when the call goes through and \<open>Some m\<close> when it
  rejects with message \<open>m\<close>. A result is \<open>Inl m\<close> for a rejection.
\<close>

type_synonym fault = "string option"
type_synonym 'a promise = "string + 'a"

definition await :: "fault \<Rightarrow> 'a \<Rightarrow> 'a promise" where
  "await f v = (case f of Some m \<Rightarrow> Inl m | None \<Rightarrow> Inr v)"

text \<open>
  \<open>new ObjectId()\<close>, which Mongoose calls when a document is constructed without an
  \<open>_id\<close>: a value not used in the collection (the driver's generator is taken to be
  collision-free).
\<close>

definition new_ObjectId :: "oid list \<Rightarrow> oid" where
  "new_ObjectId ids = Suc (fold max ids 0)"

text \<open>The message of the E11000 error MongoDB raises on a second document with one \<open>_id\<close>.\<close>

definition E11000 :: string where
  "E11000 = ''E11000 duplicate key error''"

subsection \<open>Queries on \<open>user_infos\<close>\<close>

definition UserInfo_findOne :: "fault \<Rightarrow> store \<Rightarrow> (user_info \<Rightarrow> bool) \<Rightarrow> user_info option promise" where
  "UserInfo_findOne f s q = await f (find q (user_infos s))"

definition UserInfo_save :: "fault \<Rightarrow> store \<Rightarrow> user_info \<Rightarrow> (user_info \<times> store) promise" where
  "UserInfo_save f s u =
     (case f of
        Some m \<Rightarrow> Inl m
      | None \<Rightarrow>
          if u_id u \<in> set (map u_id (user_infos s)) then Inl E11000
          else Inr (u, s\<lparr>user_infos := user_infos s @ [u]\<rparr>))"

fun delete_first :: "('a \<Rightarrow> bool) \<Rightarrow> 'a list \<Rightarrow> 'a list" where
  "delete_first q [] = []"
| "delete_first q (x # xs) = (if q x then xs else x # delete_first q xs)"

definition UserInfo_findByIdAndDelete :: "fault \<Rightarrow> store \<Rightarrow> oid \<Rightarrow> store promise" where
  "UserInfo_findByIdAndDelete f s i =
     await f (s\<lparr>user_infos := delete_first (\<lambda>u. u_id u = i) (user_infos s)\<rparr>)"

subsection \<open>Queries on \<open>todos\<close>\<close>

definition Todo_find :: "fault \<Rightarrow> store \<Rightarrow> (todo \<Rightarrow> bool) \<Rightarrow> todo list promise" where
  "Todo_find f s q = await f (filter q (todos s))"


definition Todo_save :: "fault \<Rightarrow> store \<Rightarrow> todo \<Rightarrow> (todo \<times> store) promise" where
  "Todo_save f s t =
     (case f of
        Some m \<Rightarrow> Inl m
      | None \<Rightarrow>
          if t_id t \<in> set (map t_id (todos s)) then Inl E11000
          else Inr (t, s\<lparr>todos := todos s @ [t]\<rparr>))"

definition Todo_updateMany :: "fault \<Rightarrow> store \<Rightarrow> oid \<Rightarrow> string \<Rightarrow> store promise" where
  "Todo_updateMany f s i c =
     await f (s\<lparr>todos := map (\<lambda>t. if t_id t = i then t\<lparr>content := Some c\<rparr> else t) (todos s)\<rparr>)"

definition Todo_deleteOne :: "fault \<Rightarrow> store \<Rightarrow> todo \<Rightarrow> store promise" where
  "Todo_deleteOne f s t =
     await f (s\<lparr>todos := delete_first (\<lambda>x. t_id x = t_id t) (todos s)\<rparr>)"

definition Todo_deleteMany :: "fault \<Rightarrow> store \<Rightarrow> (todo \<Rightarrow> bool) \<Rightarrow> store promise" where
  "Todo_deleteMany f s q = await f (s\<lparr>todos := filter (\<lambda>t. \<not> q t) (todos s)\<rparr>)"

section \<open>Requests and responses\<close>

text \<open>
  Apart from login, the fields the routes read from a JSON body or a query string are
  strings when present (the type the API documentation in the source declares for each
  of them); an absent field is \<open>None\<close>. \<open>!x\<close> holds of an absent field and of the empty
  string.
\<close>

definition truthy :: "string option \<Rightarrow> bool" where
  "truthy x = (case x of None \<Rightarrow> False | Some v \<Rightarrow> v \<noteq> [])"

text \<open>
  The login route hands the two fields it reads to the digest and to the query without
  looking at their type, and \<open>express.json()\<close> delivers whatever JSON the client sent. Its
  two fields are therefore JSON values; \<open>JUndefined\<close> is an absent field. \<open>!v\<close> holds of
  \<open>undefined\<close>, \<open>null\<close>, \<open>false\<close>, \<open>0\<close> and the empty string, and of nothing else: every
  array and every object is truthy.
\<close>

datatype jsvalue =
    JUndefined
  | JNull
  | JBool bool
  | JNumber real
  | JString string
  | JArray "jsvalue list"
  | JObject "(string \<times> jsvalue) list"

fun js_truthy :: "jsvalue \<Rightarrow> bool" where
  "js_truthy JUndefined = False"
| "js_truthy JNull = False"
| "js_truthy (JBool b) = b"
| "js_truthy (JNumber n) = (n \<noteq> 0)"
| "js_truthy (JString x) = (x \<noteq> [])"
| "js_truthy (JArray xs) = True"
| "js_truthy (JObject kvs) = True"

text \<open>
  A signed token. \<open>jwt.sign\<close> and the verification are those of the \<open>jsonwebtoken\<close>
  package; a token is modelled by what it carries: the claims, the issue and expiry
  times, and the secret it was signed with.
\<close>

record claims =
  iss :: string
  aud :: string
  sub :: oid

record jwt =
  jwt_claims :: claims
  jwt_iat :: nat
  jwt_exp :: nat
  jwt_key :: string

datatype json =
    Error string
  | Message string
  | AccessToken jwt
  | UserDoc user_info
  | TodoDoc todo
  | TodoList "todo list"

record response =
  status :: nat
  body :: json
  cookies :: "(string \<times> jwt) list"

definition res :: "nat \<Rightarrow> json \<Rightarrow> response" where
  "res st b = \<lparr>status = st, body = b, cookies = []\<rparr>"

text \<open>
  What the routes take from their surroundings: the four \<open>process.env\<close> settings of the
  token, the digest of the \<open>crypto\<close> package (\<open>sha512\<close>, base64), and the parser of
  \<open>mongoose.Types.ObjectId\<close>: \<open>ObjectId.isValid\<close> holds of the strings it parses, and a
  query by id is cast with it.

  Two more library behaviours concern values that are not strings. \<open>hash.update(v)\<close>
  throws a \<open>TypeError\<close> for every JSON value \<open>v\<close> that is not a string;
  \<open>update_TypeError v\<close> is its message. A query \<open>{email: v}\<close> on the string path
  \<open>email\<close> with \<open>v\<close> not a string is cast by Mongoose: \<open>mongoose_cast v\<close> is the
  condition on the stored e-mail that the query then stands for (a query operator such
  as \<open>{"$ne": null}\<close> is passed on as the condition it denotes), or \<open>Inl\<close> the message
  of the cast error that makes the query reject.
\<close>

record env =
  JWT_ISSUER :: string
  JWT_AUDIENCE :: string
  JWT_TOKEN_SECRET :: string
  JWT_ACCESS_TOKEN_EXPIRES_IN :: nat
  sha512_base64 :: "string \<Rightarrow> string"
  ObjectId_parse :: "string \<Rightarrow> oid option"
  update_TypeError :: "jsvalue \<Rightarrow> string"
  mongoose_cast :: "jsvalue \<Rightarrow> string + (string \<Rightarrow> bool)"

definition ObjectId_isValid :: "env \<Rightarrow> string \<Rightarrow> bool" where
  "ObjectId_isValid e x = (ObjectId_parse e x \<noteq> None)"

definition createHashedPassword :: "env \<Rightarrow> string \<Rightarrow> string" where
  "createHashedPassword e pw = sha512_base64 e pw"

text \<open>
  \<open>createHashedPassword(v)\<close> for a JSON value: the digest of a string, a thrown
  \<open>TypeError\<close> otherwise.
\<close>

definition createHashedPassword_js :: "env \<Rightarrow> jsvalue \<Rightarrow> string promise" where
  "createHashedPassword_js e v =
     (case v of
        JString pw \<Rightarrow> Inr (createHashedPassword e pw)
      | _ \<Rightarrow> Inl (update_TypeError e v))"

text \<open>The condition \<open>{email: v}\<close> puts on a stored e-mail: equality for a string.\<close>

definition email_query :: "env \<Rightarrow> jsvalue \<Rightarrow> (string \<Rightarrow> bool) promise" where
  "email_query e v =
     (case v of
        JString x \<Rightarrow> Inr (\<lambda>y. y = x)
      | _ \<Rightarrow> mongoose_cast e v)"

definition jwt_sign :: "claims \<Rightarrow> string \<Rightarrow> nat \<Rightarrow> nat \<Rightarrow> jwt" where
  "jwt_sign payload secret expiresIn now =
     \<lparr>jwt_claims = payload, jwt_iat = now, jwt_exp = now + expiresIn, jwt_key = secret\<rparr>"

section \<open>routes/auth.js\<close>

subsection \<open>The e-mail pattern\<close>

text \<open>
  \<^verbatim>\<open>/^[a-zA-Z0-9._%+-]+@[a-zA-Z0-9.-]+\.[a-zA-Z]{2,}$/\<close>. No character class contains
  \<open>@\<close>, so the first group is all that precedes the first \<open>@\<close>; the last group
  contains no dot, so it is all that follows the last dot.
\<close>

definition alpha :: "char \<Rightarrow> bool" where
  "alpha c = (c \<in> set ''abcdefghijklmnopqrstuvwxyzABCDEFGHIJKLMNOPQRSTUVWXYZ'')"

definition digit :: "char \<Rightarrow> bool" where
  "digit c = (c \<in> set ''0123456789'')"

definition local_ch :: "char \<Rightarrow> bool" where
  "local_ch c = (alpha c \<or> digit c \<or> c \<in> set ''._%+-'')"

definition domain_ch :: "char \<Rightarrow> bool" where
  "domain_ch c = (alpha c \<or> digit c \<or> c \<in> set ''.-'')"

definition regex_test :: "string \<Rightarrow> bool" where
  "regex_test s =
     (let l = takeWhile (\<lambda>c. c \<noteq> CHR ''@'') s;
          r = drop (Suc (length l)) s;
          t = rev (takeWhile (\<lambda>c. c \<noteq> CHR ''.'') (rev r));
          d = take (length r - Suc (length t)) r
      in length l < length s \<and> l \<noteq> [] \<and> list_all local_ch l
         \<and> length t < length r \<and> d \<noteq> [] \<and> list_all domain_ch d
         \<and> 2 \<le> length t \<and> list_all alpha t)"

text \<open>\<open>regex.test(x)\<close> converts its argument to a string first.\<close>

definition String :: "string option \<Rightarrow> string" where
  "String x = (case x of None \<Rightarrow> ''undefined'' | Some v \<Rightarrow> v)"

subsection \<open>\<open>GET /public/search\<close>\<close>


subsection \<open>\<open>POST /public/login\<close>\<close>

text \<open>
  \<open>options\<close> is a module-level object holding \<open>iss\<close> and \<open>aud\<close>; the route assigns
  \<open>options.sub\<close> and signs in the same synchronous step, so the payload signed is the
  three claims below whatever an earlier request left in \<open>options.sub\<close>. \<open>now\<close> is the
  clock reading \<open>jwt.sign\<close> takes for \<open>iat\<close>.

  The argument of \<open>findOne\<close> is built first, so the digest is computed, or throws,
  before anything is asked of the store; the cast of the filter comes next, then the
  driver. All three are inside \<open>try\<close>.
\<close>

definition post_public_login ::
  "env \<Rightarrow> nat \<Rightarrow> fault \<Rightarrow> store \<Rightarrow> jsvalue \<Rightarrow> jsvalue \<Rightarrow> response" where
  "post_public_login e now f s req_email req_password =
     (if \<not> js_truthy req_email \<or> \<not> js_truthy req_password
      then res 400 (Error ''Bad request'')
      else
        case createHashedPassword_js e req_password of
          Inl m \<Rightarrow> res 500 (Error m)
        | Inr digest \<Rightarrow>
            (case email_query e req_email of
               Inl m \<Rightarrow> res 500 (Error m)
             | Inr matches \<Rightarrow>
                 (case UserInfo_findOne f s (\<lambda>u. matches (email u) \<and> password u = digest) of
                    Inl m \<Rightarrow> res 500 (Error m)
                  | Inr (Some user) \<Rightarrow>
                      (let options = \<lparr>iss = JWT_ISSUER e, aud = JWT_AUDIENCE e,
                                      sub = u_id user\<rparr>;
                           token = jwt_sign options (JWT_TOKEN_SECRET e)
                                     (JWT_ACCESS_TOKEN_EXPIRES_IN e) now
                       in \<lparr>status = 200, body = AccessToken token,
                           cookies = [(''user'', token)]\<rparr>)
                  | Inr None \<Rightarrow> res 401 (Error ''Invalid credentials''))))"

subsection \<open>\<open>POST /public/sign-up\<close>\<close>

text \<open>
  \<open>date\<close> is the string \<open>getFormattedDate()\<close> (utils/dateUtils) returns when the route
  calls it. The route constructs the document and then constructs a second one from the
  first, which it saves; the copy has the fields and the \<open>_id\<close> of the first.
\<close>

definition post_public_sign_up ::
  "env \<Rightarrow> string \<Rightarrow> fault \<Rightarrow> fault \<Rightarrow> store \<Rightarrow> string option \<Rightarrow> string option \<Rightarrow> string option
     \<Rightarrow> response \<times> store" where
  "post_public_sign_up e date f1 f2 s req_email req_password req_username =
     (if \<not> truthy req_email \<or> \<not> truthy req_password \<or> \<not> truthy req_username
      then (res 400 (Error ''Bad request''), s)
      else
        case UserInfo_findOne f1 s (\<lambda>u. email u = String req_email) of
          Inl m \<Rightarrow> (res 500 (Error m), s)
        | Inr (Some existingUser) \<Rightarrow>
            (res 400 (Error ''Bad request or user with this email already exists''), s)
        | Inr None \<Rightarrow>
            (let user = \<lparr>u_id = new_ObjectId (map u_id (user_infos s)),
                         email = String req_email,
                         password = createHashedPassword e (String req_password),
                         username = String req_username,
                         u_createdTime = date\<rparr>
             in case UserInfo_save f2 s user of
                  Inl m \<Rightarrow> (res 500 (Error m), s)
                | Inr (newUser, s') \<Rightarrow> (res 201 (UserDoc newUser), s')))"

subsection \<open>\<open>DELETE /private/delete-account\<close>\<close>

text \<open>
  \<open>uid\<close> is \<open>res.locals.sub\<close>, the subject \<open>verifyToken\<close> took from the token. The first
  store call may go through and the second fail: the user is then gone and the todos
  are not.
\<close>

definition delete_private_delete_account ::
  "fault \<Rightarrow> fault \<Rightarrow> store \<Rightarrow> oid \<Rightarrow> response \<times> store" where
  "delete_private_delete_account f1 f2 s uid =
     (case UserInfo_findByIdAndDelete f1 s uid of
        Inl m \<Rightarrow> (res 500 (Error m), s)
      | Inr s1 \<Rightarrow>
          (case Todo_deleteMany f2 s1 (\<lambda>t. userId t = Some uid) of
             Inl m \<Rightarrow> (res 500 (Error m), s1)
           | Inr s2 \<Rightarrow> (res 200 (Message ''Account deleted successfully''), s2)))"

section \<open>routes/todos.js\<close>

subsection \<open>The middleware \<open>getTodo\<close>\<close>

text \<open>
  \<open>Todo.findById\<close> is given the string of the path and casts it to an ObjectId; a string
  that does not parse makes the query reject with a cast error.
\<close>

definition CastError :: string where
  "CastError = ''Cast to ObjectId failed''"

definition Todo_findById :: "env \<Rightarrow> fault \<Rightarrow> store \<Rightarrow> string \<Rightarrow> todo option promise" where
  "Todo_findById e f s x =
     (case ObjectId_parse e x of
        None \<Rightarrow> Inl CastError
      | Some i \<Rightarrow> await f (find (\<lambda>t. t_id t = i) (todos s)))"

text \<open>
  \<open>Inl\<close> is the response the middleware sends itself; \<open>Inr\<close> is the todo it leaves in
  \<open>res.todo\<close> when it calls \<open>next()\<close>. The path of the two routes that use it,
  \<open>/private/todos/:id\<close>, only matches a non-empty \<open>id\<close>.
\<close>

definition getTodo :: "env \<Rightarrow> fault \<Rightarrow> store \<Rightarrow> string \<Rightarrow> response + todo" where
  "getTodo e f s todoId =
     (if todoId = [] then Inl (res 400 (Error ''Bad Request''))
      else if \<not> ObjectId_isValid e todoId then Inl (res 415 (Error ''Unsupported Media Type''))
      else
        case Todo_findById e f s todoId of
          Inl m \<Rightarrow> Inl (res 500 (Error m))
        | Inr None \<Rightarrow> Inl (res 404 (Error ''Not Found''))
        | Inr (Some todo) \<Rightarrow> Inr todo)"

subsection \<open>\<open>GET /private\<close>\<close>

definition get_private :: "fault \<Rightarrow> store \<Rightarrow> oid \<Rightarrow> response" where
  "get_private f s uid =
     (case Todo_find f s (\<lambda>t. userId t = Some uid) of
        Inl m \<Rightarrow> res 500 (Error m)
      | Inr found \<Rightarrow>
          if length found = 0 then res 404 (Error ''Not Found'') else res 200 (TodoList found))"

subsection \<open>\<open>POST /private\<close>\<close>

text \<open>
  The body as \<open>new Todo(req.body)\<close> reads it: the paths of the schema, and \<open>_id\<close>.
\<close>

record todo_body =
  req_id :: "oid option"
  req_content :: "string option"
  req_createdTime :: "string option"
  req_userId :: "oid option"

definition Todo_new :: "store \<Rightarrow> todo_body \<Rightarrow> todo" where
  "Todo_new s b =
     \<lparr>t_id = (case req_id b of Some i \<Rightarrow> i | None \<Rightarrow> new_ObjectId (map t_id (todos s))),
      content = req_content b,
      createdTime = req_createdTime b,
      userId = req_userId b\<rparr>"

definition post_private :: "string \<Rightarrow> fault \<Rightarrow> store \<Rightarrow> oid \<Rightarrow> todo_body \<Rightarrow> response \<times> store" where
  "post_private date f s uid b =
     (if \<not> truthy (req_content b) then (res 400 (Error ''Bad Request''), s)
      else
        (let todo0 = Todo_new s b;
             todo1 = todo0\<lparr>userId := Some uid\<rparr>;
             todo2 = todo1\<lparr>createdTime := Some date\<rparr>
         in case Todo_save f s todo2 of
              Inl m \<Rightarrow> (res 500 (Error m), s)
            | Inr (newTodo, s') \<Rightarrow> (res 201 (TodoDoc newTodo), s')))"

subsection \<open>\<open>PATCH /private/todos/:id\<close>\<close>

text \<open>
  The chain is \<open>verifyToken\<close>, \<open>getTodo\<close>, the handler. \<open>uid\<close> is the subject
  \<open>verifyToken\<close> left in \<open>res.locals.sub\<close>; neither \<open>getTodo\<close> nor the handler reads it.
\<close>

definition patch_private_todos ::
  "env \<Rightarrow> fault \<Rightarrow> fault \<Rightarrow> store \<Rightarrow> oid \<Rightarrow> string \<Rightarrow> string option \<Rightarrow> response \<times> store" where
  "patch_private_todos e f1 f2 s uid todoId req_content' =
     (case getTodo e f1 s todoId of
        Inl r \<Rightarrow> (r, s)
      | Inr todo \<Rightarrow>
          if \<not> truthy req_content' then (res 400 (Error ''Bad Request''), s)
          else
            (case Todo_updateMany f2 s (t_id todo) (String req_content') of
               Inl m \<Rightarrow> (res 500 (Error m), s)
             | Inr s' \<Rightarrow> (res 200 (Message ''OK''), s')))"

subsection \<open>\<open>DELETE /private/todos/:id\<close>\<close>

definition delete_private_todos ::
  "env \<Rightarrow> fault \<Rightarrow> fault \<Rightarrow> store \<Rightarrow> oid \<Rightarrow> string \<Rightarrow> response \<times> store" where
  "delete_private_todos e f1 f2 s uid todoId =
     (case getTodo e f1 s todoId of
        Inl r \<Rightarrow> (r, s)
      | Inr todo \<Rightarrow>
          (case Todo_deleteOne f2 s todo of
             Inl m \<Rightarrow> (res 500 (Error m), s)
           | Inr s' \<Rightarrow> (res 200 (Message ''OK''), s')))"

section \<open>The invariant of the store\<close>

text \<open>
  MongoDB keeps \<open>_id\<close> unique within a collection, and sign-up only adds a user whose
  e-mail no user has.
\<close>

definition wf_store :: "store \<Rightarrow> bool" where
  "wf_store s = (distinct (map u_id (user_infos s)) \<and> distinct (map email (user_infos s))
                 \<and> distinct (map t_id (todos s)))"

section \<open>A sample installation\<close>

text \<open>
  A concrete parser for the 24-digit hexadecimal form of an ObjectId, a stand-in digest,
  and a small store, to run the routes on. Of the query operators the sample cast knows
  \<open>{"$ne": null}\<close>, which every stored e-mail satisfies.
\<close>

fun position :: "'a \<Rightarrow> 'a list \<Rightarrow> nat option" where
  "position c [] = None"
| "position c (x # xs) = (if c = x then Some 0 else map_option Suc (position c xs))"

definition hex_digit :: "char \<Rightarrow> nat option" where
  "hex_digit c =
     (case position c ''0123456789abcdef'' of
        Some d \<Rightarrow> Some d
      | None \<Rightarrow> map_option (\<lambda>d. d + 10) (position c ''ABCDEF''))"

fun hex_value :: "nat \<Rightarrow> string \<Rightarrow> nat option" where
  "hex_value acc [] = Some acc"
| "hex_value acc (c # cs) =
     (case hex_digit c of None \<Rightarrow> None | Some d \<Rightarrow> hex_value (16 * acc + d) cs)"

definition hex24 :: "string \<Rightarrow> oid option" where
  "hex24 x = (if length x = 24 then hex_value 0 x else None)"

definition env0 :: env where
  "env0 = \<lparr>JWT_ISSUER = ''sinabro'', JWT_AUDIENCE = ''http://localhost:5050'',
           JWT_TOKEN_SECRET = ''secret'', JWT_ACCESS_TOKEN_EXPIRES_IN = 600,
           sha512_base64 = (\<lambda>pw. CHR ''#'' # pw), ObjectId_parse = hex24,
           update_TypeError = (\<lambda>v. ''The data argument must be of type string''),
           mongoose_cast = (\<lambda>v. if v = JObject [(''$ne'', JNull)] then Inr (\<lambda>y. True)
                                 else Inl ''Cast to string failed'')\<rparr>"

definition alice :: user_info where
  "alice = \<lparr>u_id = 1, email = ''a@b.com'', password = ''#p1'', username = ''u'',
            u_createdTime = ''2023-07-29 20:44:51.681''\<rparr>"

definition bob :: user_info where
  "bob = \<lparr>u_id = 2, email = ''bob@b.com'', password = ''#p2'', username = ''bob'',
          u_createdTime = ''2023-07-30 08:00:00.000''\<rparr>"

definition milk :: todo where
  "milk = \<lparr>t_id = 7, content = Some ''buy milk'',
           createdTime = Some ''2023-07-29 20:45:00.000'', userId = Some 1\<rparr>"

definition store0 :: store where
  "store0 = \<lparr>user_infos = [alice, bob], todos = [milk]\<rparr>"

definition milk_id :: string where
  "milk_id = ''000000000000000000000007''"

definition body0 :: todo_body where
  "body0 = \<lparr>req_id = None, req_content = Some ''buy eggs'',
            req_createdTime = Some ''1999-01-01'', req_userId = Some 1\<rparr>"

definition no_such_id :: string where
  "no_such_id = ''000000000000000000000009''"

definition token0 :: jwt where
  "token0 = \<lparr>jwt_claims = \<lparr>iss = ''sinabro'', aud = ''http://localhost:5050'', sub = 1\<rparr>,
             jwt_iat = 100, jwt_exp = 700, jwt_key = ''secret''\<rparr>"

definition store1 :: store where
  "store1 = \<lparr>user_infos = [bob], todos = [milk]\<rparr>"

section \<open>Facts about the store queries\<close>

lemmas store_defs = await_def
  UserInfo_findOne_def UserInfo_save_def UserInfo_findByIdAndDelete_def Todo_find_def
  Todo_findById_def Todo_save_def Todo_updateMany_def Todo_deleteOne_def Todo_deleteMany_def

lemmas sample_defs = env0_def store0_def alice_def bob_def milk_def milk_id_def hex24_def
  hex_digit_def


lemma find_None_set: "find q xs = None \<longleftrightarrow> (\<forall>x\<in>set xs. \<not> q x)"
  by (induction xs) auto

lemma find_Some_set: "find q xs = Some x \<Longrightarrow> x \<in> set xs \<and> q x"
  by (induction xs) (auto split: if_splits)

lemma find_exists: "x \<in> set xs \<Longrightarrow> q x \<Longrightarrow> \<exists>y. find q xs = Some y"
  by (cases "find q xs") (auto simp: find_None_set)

lemma find_by_key:
  "distinct (map k xs) \<Longrightarrow> x \<in> set xs \<Longrightarrow> q x \<Longrightarrow> find (\<lambda>y. k y = k x \<and> q y) xs = Some x"
proof (induction xs)
  case Nil
  then show ?case by simp
next
  case (Cons a xs)
  show ?case
  proof (cases "a = x")
    case True
    with Cons.prems(3) show ?thesis by simp
  next
    case False
    with Cons.prems(2) have in_tl: "x \<in> set xs" by simp
    then have "k x \<in> k ` set xs" by (rule imageI)
    moreover from Cons.prems(1) have "k a \<notin> k ` set xs" by simp
    ultimately have "k a \<noteq> k x" by metis
    moreover from Cons.prems(1) have "distinct (map k xs)" by simp
    ultimately show ?thesis using Cons.IH [OF _ in_tl Cons.prems(3)] by simp
  qed
qed

lemma delete_first_find: "find q xs = Some t \<Longrightarrow> delete_first q xs = remove1 t xs"
proof (induction xs)
  case Nil
  then show ?case by simp
next
  case (Cons a xs)
  then show ?case by (auto split: if_splits dest: find_Some_set)
qed

lemma delete_first_absent: "\<forall>x\<in>set xs. \<not> q x \<Longrightarrow> delete_first q xs = xs"
  by (induction xs) auto

lemma delete_first_subset: "set (delete_first q xs) \<subseteq> set xs"
  by (induction xs) auto

lemma delete_first_distinct:
  "distinct (map k xs) \<Longrightarrow> delete_first (\<lambda>x. k x = i) xs = filter (\<lambda>x. k x \<noteq> i) xs"
proof (induction xs)
  case Nil
  then show ?case by simp
next
  case (Cons a xs)
  show ?case
  proof (cases "k a = i")
    case True
    with Cons.prems have "\<forall>x\<in>set xs. k x \<noteq> i" by (auto simp: image_iff)
    then have "filter (\<lambda>x. k x \<noteq> i) xs = xs" by (simp add: filter_id_conv)
    with True show ?thesis by simp
  next
    case False
    with Cons show ?thesis by simp
  qed
qed

lemma fold_max_ge: "(m::nat) \<le> fold max xs m"
  by (induction xs arbitrary: m) (auto intro: order_trans [OF max.cobounded2])

lemma fold_max_upper: "x \<in> set xs \<Longrightarrow> (x::nat) \<le> fold max xs m"
proof (induction xs arbitrary: m)
  case Nil
  then show ?case by simp
next
  case (Cons a xs)
  show ?case
  proof (cases "x = a")
    case True
    have "a \<le> max a m" by simp
    also have "\<dots> \<le> fold max xs (max a m)" by (rule fold_max_ge)
    finally show ?thesis using True by simp
  next
    case False
    with Cons show ?thesis by simp
  qed
qed

lemma new_ObjectId_fresh: "new_ObjectId ids \<notin> set ids"
proof
  assume "new_ObjectId ids \<in> set ids"
  then have "new_ObjectId ids \<le> fold max ids 0" by (rule fold_max_upper)
  then show False by (simp add: new_ObjectId_def)
qed

section \<open>The e-mail pattern as a language\<close>

text \<open>
  \<open>regex_test\<close> accepts exactly the strings the pattern describes: one or more characters
  of the first class, \<open>@\<close>, one or more of the second class, a dot, two or more letters.
\<close>

lemma takeWhile_split:
  "length (takeWhile P xs) < length xs \<Longrightarrow> \<exists>x ys. xs = takeWhile P xs @ x # ys \<and> \<not> P x"
  by (induction xs) (auto split: if_splits)

lemma not_at: "local_ch c \<Longrightarrow> c \<noteq> CHR ''@''"
  by (auto simp: local_ch_def alpha_def digit_def)

lemma not_dot: "alpha c \<Longrightarrow> c \<noteq> CHR ''.''"
  by (auto simp: alpha_def)

lemma regex_test_iff:
  "regex_test s \<longleftrightarrow>
     (\<exists>l d t. s = l @ CHR ''@'' # d @ CHR ''.'' # t
        \<and> l \<noteq> [] \<and> list_all local_ch l
        \<and> d \<noteq> [] \<and> list_all domain_ch d
        \<and> 2 \<le> length t \<and> list_all alpha t)"
proof
  assume m: "regex_test s"
  define l where "l = takeWhile (\<lambda>c. c \<noteq> CHR ''@'') s"
  define r where "r = drop (Suc (length l)) s"
  define t where "t = rev (takeWhile (\<lambda>c. c \<noteq> CHR ''.'') (rev r))"
  define d where "d = take (length r - Suc (length t)) r"
  from m have c: "length l < length s" "l \<noteq> []" "list_all local_ch l"
    "length t < length r" "d \<noteq> []" "list_all domain_ch d" "2 \<le> length t" "list_all alpha t"
    unfolding regex_test_def Let_def l_def r_def t_def d_def by blast+
  from c(1) obtain x ys where s1: "s = l @ x # ys" and "\<not> x \<noteq> CHR ''@''"
    unfolding l_def using takeWhile_split [of "\<lambda>c. c \<noteq> CHR ''@''" s] by blast
  then have s2: "s = l @ CHR ''@'' # ys" by simp
  have ry: "r = ys" unfolding r_def by (subst s2) simp
  from c(4) have "length (takeWhile (\<lambda>c. c \<noteq> CHR ''.'') (rev r)) < length (rev r)"
    unfolding t_def by simp
  then obtain y zs where q1: "rev r = takeWhile (\<lambda>c. c \<noteq> CHR ''.'') (rev r) @ y # zs"
    and "\<not> y \<noteq> CHR ''.''"
    using takeWhile_split [of "\<lambda>c. c \<noteq> CHR ''.''" "rev r"] by blast
  then have "rev r = rev t @ CHR ''.'' # zs" unfolding t_def by simp
  then have "rev (rev r) = rev (rev t @ CHR ''.'' # zs)" by simp
  then have r2: "r = rev zs @ CHR ''.'' # t" by simp
  then have "d = rev zs" unfolding d_def by simp
  with r2 have "r = d @ CHR ''.'' # t" by simp
  with s2 ry have "s = l @ CHR ''@'' # d @ CHR ''.'' # t" by simp
  with c show "\<exists>l d t. s = l @ CHR ''@'' # d @ CHR ''.'' # t
        \<and> l \<noteq> [] \<and> list_all local_ch l
        \<and> d \<noteq> [] \<and> list_all domain_ch d
        \<and> 2 \<le> length t \<and> list_all alpha t" by blast
next
  assume "\<exists>l d t. s = l @ CHR ''@'' # d @ CHR ''.'' # t
        \<and> l \<noteq> [] \<and> list_all local_ch l
        \<and> d \<noteq> [] \<and> list_all domain_ch d
        \<and> 2 \<le> length t \<and> list_all alpha t"
  then obtain l d t where s: "s = l @ CHR ''@'' # d @ CHR ''.'' # t"
    and c: "l \<noteq> []" "list_all local_ch l" "d \<noteq> []" "list_all domain_ch d"
      "2 \<le> length t" "list_all alpha t"
    by blast
  from c(2) have "\<forall>c\<in>set l. c \<noteq> CHR ''@''" by (auto simp: list_all_iff dest: not_at)
  then have tl: "takeWhile (\<lambda>c. c \<noteq> CHR ''@'') s = l"
    unfolding s by (simp add: takeWhile_tail)
  have dr: "drop (Suc (length l)) s = d @ CHR ''.'' # t" unfolding s by simp
  from c(6) have "\<forall>c\<in>set (rev t). c \<noteq> CHR ''.''" by (auto simp: list_all_iff dest: not_dot)
  then have "takeWhile (\<lambda>c. c \<noteq> CHR ''.'') (rev t @ CHR ''.'' # rev d) = rev t"
    by (simp add: takeWhile_tail)
  then have tt: "rev (takeWhile (\<lambda>c. c \<noteq> CHR ''.'') (rev (d @ CHR ''.'' # t))) = t" by simp
  have td: "take (length (d @ CHR ''.'' # t) - Suc (length t)) (d @ CHR ''.'' # t) = d" by simp
  have ls: "length l < length s" unfolding s by simp
  have lt: "length t < length (d @ CHR ''.'' # t)" by simp
  show "regex_test s"
    unfolding regex_test_def Let_def tl dr tt td using c ls lt by simp
qed

section \<open>Every route keeps the invariant\<close>

lemma delete_first_keeps_distinct:
  "distinct (map k xs) \<Longrightarrow> distinct (map k (delete_first q xs))"
proof (induction xs)
  case Nil
  then show ?case by simp
next
  case (Cons a xs)
  have "k ` set (delete_first q xs) \<subseteq> k ` set xs"
    using delete_first_subset [of q xs] by auto
  with Cons show ?case by auto
qed

lemma wf_sign_up:
  assumes "wf_store s"
  shows "wf_store (snd (post_public_sign_up e date f1 f2 s em pw un))"
proof (cases "find (\<lambda>u. email u = String em) (user_infos s)")
  case None
  then have "String em \<notin> email ` set (user_infos s)" by (auto simp: find_None_set)
  with assms None show ?thesis
    by (cases f1; cases f2)
      (auto simp: post_public_sign_up_def UserInfo_findOne_def UserInfo_save_def await_def
        wf_store_def Let_def)
next
  case (Some u)
  with assms show ?thesis
    by (cases f1) (simp_all add: post_public_sign_up_def UserInfo_findOne_def await_def)
qed

lemma wf_delete_account:
  assumes "wf_store s"
  shows "wf_store (snd (delete_private_delete_account f1 f2 s uid))"
  using assms
  by (cases f1; cases f2)
    (simp_all add: delete_private_delete_account_def UserInfo_findByIdAndDelete_def
      Todo_deleteMany_def await_def wf_store_def delete_first_keeps_distinct distinct_map_filter)

lemma wf_post_private:
  assumes "wf_store s"
  shows "wf_store (snd (post_private date f s uid b))"
  using assms
  by (cases f) (auto simp: post_private_def Todo_save_def wf_store_def Let_def)

lemma t_id_update: "t_id \<circ> (\<lambda>x. if t_id x = i then x\<lparr>content := v\<rparr> else x) = t_id"
  by (auto simp: fun_eq_iff)

lemma wf_patch:
  assumes "wf_store s"
  shows "wf_store (snd (patch_private_todos e f1 f2 s uid todoId c))"
proof (cases "getTodo e f1 s todoId")
  case (Inl r)
  with assms show ?thesis by (simp add: patch_private_todos_def)
next
  case (Inr t)
  with assms show ?thesis
    by (cases f2)
      (simp_all add: patch_private_todos_def Todo_updateMany_def await_def wf_store_def
        t_id_update)
qed

lemma wf_delete_todo:
  assumes "wf_store s"
  shows "wf_store (snd (delete_private_todos e f1 f2 s uid todoId))"
proof (cases "getTodo e f1 s todoId")
  case (Inl r)
  with assms show ?thesis by (simp add: delete_private_todos_def)
next
  case (Inr t)
  with assms show ?thesis
    by (cases f2)
      (simp_all add: delete_private_todos_def Todo_deleteOne_def await_def wf_store_def
        delete_first_keeps_distinct)
qed

lemma wf_empty: "wf_store \<lparr>user_infos = [], todos = []\<rparr>"
  by (simp add: wf_store_def)

section \<open>Deleting an account\<close>

text \<open>
  With user identifiers unique and both store calls going through, delete-account
  answers 200, removes the user with the caller's identifier and then every todo the
  caller owns, and changes nothing else; afterwards no user has the identifier, no todo
  has that owner, and the list handler finds nothing for it.
\<close>

lemma delete_account_cascade:
  assumes "distinct (map u_id (user_infos s))"
  shows "delete_private_delete_account None None s uid =
           (res 200 (Message ''Account deleted successfully''),
            s\<lparr>user_infos := filter (\<lambda>u. u_id u \<noteq> uid) (user_infos s),
              todos := filter (\<lambda>t. userId t \<noteq> Some uid) (todos s)\<rparr>)"
    and "uid \<notin> u_id ` set (user_infos (snd (delete_private_delete_account None None s uid)))"
    and "filter (\<lambda>t. userId t = Some uid)
            (todos (snd (delete_private_delete_account None None s uid))) = []"
    and "get_private None (snd (delete_private_delete_account None None s uid)) uid
           = res 404 (Error ''Not Found'')"
proof -
  let ?s' = "s\<lparr>user_infos := filter (\<lambda>u. u_id u \<noteq> uid) (user_infos s),
              todos := filter (\<lambda>t. userId t \<noteq> Some uid) (todos s)\<rparr>"
  have del: "delete_first (\<lambda>u. u_id u = uid) (user_infos s)
      = filter (\<lambda>u. u_id u \<noteq> uid) (user_infos s)"
    using assms by (rule delete_first_distinct)
  show run: "delete_private_delete_account None None s uid =
           (res 200 (Message ''Account deleted successfully''), ?s')"
    by (simp add: delete_private_delete_account_def UserInfo_findByIdAndDelete_def
        Todo_deleteMany_def await_def del)
  have none: "filter (\<lambda>t. userId t = Some uid) (todos ?s') = []"
    by (simp add: filter_empty_conv)
  show "uid \<notin> u_id ` set (user_infos (snd (delete_private_delete_account None None s uid)))"
    unfolding run by auto
  show "filter (\<lambda>t. userId t = Some uid)
            (todos (snd (delete_private_delete_account None None s uid))) = []"
    unfolding run using none by simp
  show "get_private None (snd (delete_private_delete_account None None s uid)) uid
           = res 404 (Error ''Not Found'')"
    unfolding run using none by (simp add: get_private_def Todo_find_def await_def)
qed

text \<open>
  The two deletions are not one transaction: when the first goes through and the second
  fails, the user is gone, the todos are all still there, and the answer is 500.
\<close>

lemma delete_account_second_call_fails:
  "delete_private_delete_account None (Some m) s uid =
     (res 500 (Error m), s\<lparr>user_infos := delete_first (\<lambda>u. u_id u = uid) (user_infos s)\<rparr>)"
  by (simp add: delete_private_delete_account_def UserInfo_findByIdAndDelete_def
      Todo_deleteMany_def await_def)

section \<open>Facts about \<open>getTodo\<close>\<close>

lemma getTodo_found:
  assumes "todoId \<noteq> []" "ObjectId_parse e todoId = Some i"
    "find (\<lambda>t. t_id t = i) (todos s) = Some t"
  shows "getTodo e None s todoId = Inr t"
  using assms by (simp add: getTodo_def ObjectId_isValid_def Todo_findById_def await_def)

lemma getTodo_absent:
  assumes "todoId \<noteq> []" "ObjectId_parse e todoId = Some i" "i \<notin> t_id ` set (todos s)"
  shows "getTodo e None s todoId = Inl (res 404 (Error ''Not Found''))"
proof -
  from assms(3) have "find (\<lambda>t. t_id t = i) (todos s) = None"
    by (auto simp: find_None_set)
  with assms(1,2) show ?thesis
    by (simp add: getTodo_def ObjectId_isValid_def Todo_findById_def await_def)
qed

lemma getTodo_invalid:
  assumes "todoId \<noteq> []" "\<not> ObjectId_isValid e todoId"
  shows "getTodo e f s todoId = Inl (res 415 (Error ''Unsupported Media Type''))"
  using assms by (simp add: getTodo_def)

section \<open>Listing one's todos\<close>

text \<open>
  Claim C6. When the store call goes through, \<open>GET /private\<close> for the caller \<open>uid\<close>
  answers 200 with exactly the todos whose \<open>userId\<close> is \<open>uid\<close>, in store order, and
  answers 404 \<open>Not Found\<close> when there is none. Whatever the driver does, the answer is
  never 200 with an empty array.
\<close>

theorem C6_list_mine:
  "(filter (\<lambda>t. userId t = Some uid) (todos s) = [] \<longrightarrow>
      get_private None s uid = res 404 (Error ''Not Found''))
   \<and> (filter (\<lambda>t. userId t = Some uid) (todos s) \<noteq> [] \<longrightarrow>
      get_private None s uid = res 200 (TodoList (filter (\<lambda>t. userId t = Some uid) (todos s))))
   \<and> (get_private None s uid = res 200 (TodoList xs) \<longrightarrow>
      xs \<noteq> [] \<and> set xs = {t \<in> set (todos s). userId t = Some uid})
   \<and> get_private f s uid \<noteq> res 200 (TodoList [])"
proof -
  let ?mine = "filter (\<lambda>t. userId t = Some uid) (todos s)"
  have run: "get_private None s uid =
      (if ?mine = [] then res 404 (Error ''Not Found'') else res 200 (TodoList ?mine))"
    by (simp add: get_private_def Todo_find_def await_def)
  have exact: "xs \<noteq> [] \<and> set xs = {t \<in> set (todos s). userId t = Some uid}"
    if "get_private None s uid = res 200 (TodoList xs)"
  proof (cases "?mine = []")
    case True
    with that run show ?thesis by (simp add: res_def)
  next
    case False
    with that run have "xs = ?mine" by (simp add: res_def)
    with False show ?thesis by auto
  qed
  have never: "get_private f s uid \<noteq> res 200 (TodoList [])"
    by (cases f) (simp_all add: get_private_def Todo_find_def await_def res_def)
  from run exact never show ?thesis by simp
qed

text \<open>On the sample store: Bob owns nothing, Alice owns one todo.\<close>

theorem C6_list_mine_witness:
  "get_private None store0 2 = res 404 (Error ''Not Found'')
   \<and> get_private None store0 1 = res 200 (TodoList [milk])"
  using C6_list_mine [of 2 store0] C6_list_mine [of 1 store0]
  by (simp add: store0_def milk_def)

section \<open>Deleting an account twice\<close>

text \<open>
  Claim C10. When both store calls go through, \<open>DELETE /private/delete-account\<close> answers
  200 \<open>Account deleted successfully\<close> for every store and every identity, whether or
  not a user with that identifier exists; in particular a second call on the store the
  first one left answers the same. Whatever the driver does, the status is never 404.
\<close>

theorem C10_delete_account_always_ok:
  "fst (delete_private_delete_account None None s uid)
     = res 200 (Message ''Account deleted successfully'')
   \<and> fst (delete_private_delete_account None None
             (snd (delete_private_delete_account None None s uid)) uid)
     = res 200 (Message ''Account deleted successfully'')
   \<and> status (fst (delete_private_delete_account f1 f2 s uid)) \<noteq> 404"
proof -
  have ok: "fst (delete_private_delete_account None None s' uid)
      = res 200 (Message ''Account deleted successfully'')" for s'
    by (simp add: delete_private_delete_account_def UserInfo_findByIdAndDelete_def
        Todo_deleteMany_def await_def)
  have "status (fst (delete_private_delete_account f1 f2 s uid)) \<noteq> 404"
    by (cases f1; cases f2)
      (simp_all add: delete_private_delete_account_def UserInfo_findByIdAndDelete_def
        Todo_deleteMany_def await_def res_def)
  with ok show ?thesis by simp
qed

section \<open>Signing up with a registered e-mail\<close>

text \<open>
  Claim C5. If some user has the e-mail \<open>x\<close>, a sign-up with \<open>x\<close> is answered 400
  when the look-up goes through, whatever password and name come with it, and the store
  is left as it was (whatever the driver does): no record is changed and none is added.
\<close>

theorem C5_sign_up_duplicate_email:
  assumes "x \<in> email ` set (user_infos s)"
  shows "status (fst (post_public_sign_up e date None f2 s (Some x) pw un)) = 400
         \<and> snd (post_public_sign_up e date f1 f2 s (Some x) pw un) = s"
proof -
  from assms obtain u where "u \<in> set (user_infos s)" and "email u = x" by auto
  then obtain y where found: "find (\<lambda>u. email u = x) (user_infos s) = Some y"
    using find_exists [of u "user_infos s" "\<lambda>u. email u = x"] by auto
  show ?thesis
    by (cases f1) (simp_all add: post_public_sign_up_def UserInfo_findOne_def await_def found
        String_def res_def)
qed

text \<open>A second sign-up with Alice's address.\<close>

theorem C5_sign_up_duplicate_email_witness:
  "status (fst (post_public_sign_up env0 ''now'' None None store0 (Some ''a@b.com'') (Some ''p9'') (Some ''eve''))) = 400
   \<and> snd (post_public_sign_up env0 ''now'' (Some ''down'') None store0 (Some ''a@b.com'') (Some ''p9'') (Some ''eve'')) = store0"
proof -
  have "''a@b.com'' \<in> email ` set (user_infos store0)"
    by (simp add: store0_def alice_def bob_def)
  then show ?thesis by (rule C5_sign_up_duplicate_email)
qed

section \<open>Checking an e-mail address\<close>



section \<open>Creating a todo\<close>

text \<open>
  Claim C3. \<open>POST /private\<close> for the caller \<open>uid\<close>: when the content is absent or empty the
  answer is 400 and the store is unchanged, whatever the driver does. Otherwise, when the
  save goes through (no driver fault, and the \<open>_id\<close> of the new document is not taken,
  which is so whenever the body sends none), the answer is 201 with the created todo,
  which is appended to the store; its owner is \<open>uid\<close> and its creation time is the
  server's \<open>date\<close>. An owner or a creation time in the body has no effect at all: the
  route answers the same and leaves the same store for every value of these two fields.
  Whatever the driver does, the route either leaves the store as it was or appends that
  one todo.
\<close>

theorem C3_create:
  "(\<not> truthy (req_content b) \<longrightarrow> post_private date f s uid b = (res 400 (Error ''Bad Request''), s))
   \<and> (truthy (req_content b) \<and> t_id (Todo_new s b) \<notin> t_id ` set (todos s) \<longrightarrow>
        post_private date None s uid b =
          (res 201 (TodoDoc \<lparr>t_id = t_id (Todo_new s b), content = req_content b,
                              createdTime = Some date, userId = Some uid\<rparr>),
           s\<lparr>todos := todos s @ [\<lparr>t_id = t_id (Todo_new s b), content = req_content b,
                                    createdTime = Some date, userId = Some uid\<rparr>]\<rparr>))
   \<and> (req_id b = None \<longrightarrow> t_id (Todo_new s b) \<notin> t_id ` set (todos s))
   \<and> post_private date f s uid (b\<lparr>req_userId := owner, req_createdTime := stamp\<rparr>)
        = post_private date f s uid b
   \<and> (snd (post_private date f s uid b) = s
      \<or> snd (post_private date f s uid b) =
          s\<lparr>todos := todos s @ [\<lparr>t_id = t_id (Todo_new s b), content = req_content b,
                                   createdTime = Some date, userId = Some uid\<rparr>]\<rparr>)"
proof -
  have fresh: "req_id b = None \<longrightarrow> t_id (Todo_new s b) \<notin> t_id ` set (todos s)"
    using new_ObjectId_fresh [of "map t_id (todos s)"] by (simp add: Todo_new_def)
  have bad: "\<not> truthy (req_content b) \<longrightarrow>
      post_private date f s uid b = (res 400 (Error ''Bad Request''), s)"
    by (simp add: post_private_def)
  have good: "truthy (req_content b) \<and> t_id (Todo_new s b) \<notin> t_id ` set (todos s) \<longrightarrow>
        post_private date None s uid b =
          (res 201 (TodoDoc \<lparr>t_id = t_id (Todo_new s b), content = req_content b,
                              createdTime = Some date, userId = Some uid\<rparr>),
           s\<lparr>todos := todos s @ [\<lparr>t_id = t_id (Todo_new s b), content = req_content b,
                                    createdTime = Some date, userId = Some uid\<rparr>]\<rparr>)"
    by (simp add: post_private_def Todo_save_def Todo_new_def Let_def)
  have same: "post_private date f s uid (b\<lparr>req_userId := owner, req_createdTime := stamp\<rparr>)
        = post_private date f s uid b"
    by (simp add: post_private_def Todo_new_def Let_def)
  have any: "snd (post_private date f s uid b) = s
      \<or> snd (post_private date f s uid b) =
          s\<lparr>todos := todos s @ [\<lparr>t_id = t_id (Todo_new s b), content = req_content b,
                                   createdTime = Some date, userId = Some uid\<rparr>]\<rparr>"
    by (cases f) (simp_all add: post_private_def Todo_save_def Todo_new_def Let_def)
  from bad good fresh same any show ?thesis by blast
qed

text \<open>Bob creates a todo with a body that names Alice as owner and an old date.\<close>

theorem C3_create_witness:
  "post_private ''2023-08-01 09:00:00.000'' (Some ''down'') store0 2 (body0\<lparr>req_content := Some []\<rparr>)
     = (res 400 (Error ''Bad Request''), store0)
   \<and> post_private ''2023-08-01 09:00:00.000'' None store0 2 body0
     = (res 201 (TodoDoc \<lparr>t_id = 8, content = Some ''buy eggs'',
                           createdTime = Some ''2023-08-01 09:00:00.000'', userId = Some 2\<rparr>),
        store0\<lparr>todos := [milk, \<lparr>t_id = 8, content = Some ''buy eggs'',
                           createdTime = Some ''2023-08-01 09:00:00.000'', userId = Some 2\<rparr>]\<rparr>)"
proof -
  have a: "\<not> truthy (req_content (body0\<lparr>req_content := Some []\<rparr>))"
    by (simp add: truthy_def)
  have b: "truthy (req_content body0)" "req_id body0 = None"
    by (simp_all add: truthy_def body0_def)
  have c: "t_id (Todo_new store0 body0) = 8"
    by (simp add: Todo_new_def body0_def store0_def milk_def new_ObjectId_def)
  show ?thesis
    using C3_create [of "body0\<lparr>req_content := Some []\<rparr>" "''2023-08-01 09:00:00.000''" "Some ''down''" store0 2]
      C3_create [of body0 "''2023-08-01 09:00:00.000''" None store0 2] a b c
    by (simp add: body0_def store0_def)
qed

section \<open>Updating the content of a todo\<close>

text \<open>
  Claim C7. Let the path identifier parse to the \<open>_id\<close> of a stored todo (the route
  \<open>/private/todos/:id\<close> only matches a non-empty identifier) and let the look-up go
  through. If the content is absent or empty, the answer is 400 and the store, so the
  stored content, is unchanged. Otherwise, when the update goes through, the answer is
  the acknowledgment 200 \<open>OK\<close> (not the record), the content of that todo is the new
  one, and nothing else changes: the identifiers, owners and creation times of the todos
  are what they were, and so are the users.
\<close>

theorem C7_update_content:
  assumes "todoId \<noteq> []" and "ObjectId_parse e todoId = Some i"
    and "find (\<lambda>t. t_id t = i) (todos s) = Some t"
  shows "(\<not> truthy c \<longrightarrow>
            patch_private_todos e None f2 s uid todoId c = (res 400 (Error ''Bad Request''), s))
       \<and> (truthy c \<longrightarrow>
            patch_private_todos e None None s uid todoId c =
              (res 200 (Message ''OK''),
               s\<lparr>todos := map (\<lambda>x. if t_id x = i then x\<lparr>content := Some (String c)\<rparr> else x)
                                 (todos s)\<rparr>)
          \<and> map t_id (todos (snd (patch_private_todos e None None s uid todoId c)))
              = map t_id (todos s)
          \<and> map userId (todos (snd (patch_private_todos e None None s uid todoId c)))
              = map userId (todos s)
          \<and> map createdTime (todos (snd (patch_private_todos e None None s uid todoId c)))
              = map createdTime (todos s)
          \<and> user_infos (snd (patch_private_todos e None None s uid todoId c)) = user_infos s)"
proof -
  have got: "getTodo e None s todoId = Inr t" using assms by (rule getTodo_found)
  from assms(3) have tid: "t_id t = i" by (auto dest: find_Some_set)
  have bad: "\<not> truthy c \<longrightarrow>
      patch_private_todos e None f2 s uid todoId c = (res 400 (Error ''Bad Request''), s)"
    by (simp add: patch_private_todos_def got)
  have good: "truthy c \<longrightarrow> patch_private_todos e None None s uid todoId c =
              (res 200 (Message ''OK''),
               s\<lparr>todos := map (\<lambda>x. if t_id x = i then x\<lparr>content := Some (String c)\<rparr> else x)
                                 (todos s)\<rparr>)"
    by (simp add: patch_private_todos_def got tid Todo_updateMany_def await_def)
  have frame: "map t_id (map (\<lambda>x. if t_id x = i then x\<lparr>content := Some v\<rparr> else x) xs) = map t_id xs"
     "map userId (map (\<lambda>x. if t_id x = i then x\<lparr>content := Some v\<rparr> else x) xs) = map userId xs"
     "map createdTime (map (\<lambda>x. if t_id x = i then x\<lparr>content := Some v\<rparr> else x) xs) = map createdTime xs"
    for v and xs :: "todo list"
    by (induction xs) simp_all
  from bad good show ?thesis by (simp add: frame)
qed

text \<open>Alice sends an empty content, then a new one, for her todo.\<close>

theorem C7_update_content_witness:
  "patch_private_todos env0 None (Some ''down'') store0 1 milk_id (Some [])
     = (res 400 (Error ''Bad Request''), store0)
   \<and> patch_private_todos env0 None None store0 1 milk_id (Some ''buy oat milk'')
     = (res 200 (Message ''OK''),
        store0\<lparr>todos := [\<lparr>t_id = 7, content = Some ''buy oat milk'',
                           createdTime = Some ''2023-07-29 20:45:00.000'', userId = Some 1\<rparr>]\<rparr>)"
proof -
  have a: "milk_id \<noteq> []" by (simp add: milk_id_def)
  have b: "ObjectId_parse env0 milk_id = Some 7" by (simp add: sample_defs)
  have c: "find (\<lambda>t. t_id t = 7) (todos store0) = Some milk" by (simp add: store0_def milk_def)
  have d: "\<not> truthy (Some [])" "truthy (Some ''buy oat milk'')" by (simp_all add: truthy_def)
  show ?thesis
    using C7_update_content [OF a b c, of "Some []" "Some ''down''" 1]
      C7_update_content [OF a b c, of "Some ''buy oat milk''" None 1] d
    by (simp add: store0_def milk_def String_def)
qed

section \<open>The fetch-by-id gate and delete\<close>

text \<open>
  Claim C9. For a request to update or delete with a (non-empty) path identifier: if the
  identifier is not a well-formed ObjectId, \<open>getTodo\<close> answers 415 for every store and
  every behaviour of the driver, so without a look-up, and both routes answer 415 and
  leave the store alone. If it is well-formed and no todo has that \<open>_id\<close>, the answer
  is 404 (look-up going through). If a todo has it, \<open>getTodo\<close> passes the todo it found
  to the next stage, and delete removes that todo and nothing else and answers 200
  \<open>OK\<close>.
\<close>

theorem C9_fetch_by_id_and_delete:
  assumes "todoId \<noteq> []"
  shows "(\<not> ObjectId_isValid e todoId \<longrightarrow>
            getTodo e f1 s todoId = Inl (res 415 (Error ''Unsupported Media Type''))
          \<and> patch_private_todos e f1 f2 s uid todoId c
              = (res 415 (Error ''Unsupported Media Type''), s)
          \<and> delete_private_todos e f1 f2 s uid todoId
              = (res 415 (Error ''Unsupported Media Type''), s))
       \<and> (ObjectId_parse e todoId = Some i \<and> i \<notin> t_id ` set (todos s) \<longrightarrow>
            getTodo e None s todoId = Inl (res 404 (Error ''Not Found''))
          \<and> patch_private_todos e None f2 s uid todoId c = (res 404 (Error ''Not Found''), s)
          \<and> delete_private_todos e None f2 s uid todoId = (res 404 (Error ''Not Found''), s))
       \<and> (ObjectId_parse e todoId = Some i \<and> find (\<lambda>t. t_id t = i) (todos s) = Some t \<longrightarrow>
            getTodo e None s todoId = Inr t
          \<and> delete_private_todos e None None s uid todoId
              = (res 200 (Message ''OK''), s\<lparr>todos := remove1 t (todos s)\<rparr>))"
proof -
  have invalid: "\<not> ObjectId_isValid e todoId \<longrightarrow>
            getTodo e f1 s todoId = Inl (res 415 (Error ''Unsupported Media Type''))
          \<and> patch_private_todos e f1 f2 s uid todoId c
              = (res 415 (Error ''Unsupported Media Type''), s)
          \<and> delete_private_todos e f1 f2 s uid todoId
              = (res 415 (Error ''Unsupported Media Type''), s)"
    using assms
    by (simp add: getTodo_invalid patch_private_todos_def delete_private_todos_def)
  have absent: "ObjectId_parse e todoId = Some i \<and> i \<notin> t_id ` set (todos s) \<longrightarrow>
            getTodo e None s todoId = Inl (res 404 (Error ''Not Found''))
          \<and> patch_private_todos e None f2 s uid todoId c = (res 404 (Error ''Not Found''), s)
          \<and> delete_private_todos e None f2 s uid todoId = (res 404 (Error ''Not Found''), s)"
    using assms
    by (simp add: getTodo_absent patch_private_todos_def delete_private_todos_def)
  have found: "getTodo e None s todoId = Inr t
          \<and> delete_private_todos e None None s uid todoId
              = (res 200 (Message ''OK''), s\<lparr>todos := remove1 t (todos s)\<rparr>)"
    if p: "ObjectId_parse e todoId = Some i" and q: "find (\<lambda>t. t_id t = i) (todos s) = Some t"
  proof -
    have got: "getTodo e None s todoId = Inr t" using assms p q by (rule getTodo_found)
    from q have tid: "t_id t = i" by (auto dest: find_Some_set)
    have "delete_first (\<lambda>x. t_id x = i) (todos s) = remove1 t (todos s)"
      using q by (rule delete_first_find)
    with got tid show ?thesis
      by (simp add: delete_private_todos_def Todo_deleteOne_def await_def)
  qed
  from invalid absent found show ?thesis by blast
qed

text \<open>A malformed identifier, one that no todo has, and the identifier of Alice's todo.\<close>

theorem C9_fetch_by_id_and_delete_witness:
  "getTodo env0 (Some ''down'') store0 ''7'' = Inl (res 415 (Error ''Unsupported Media Type''))
   \<and> delete_private_todos env0 (Some ''down'') None store0 1 ''7''
       = (res 415 (Error ''Unsupported Media Type''), store0)
   \<and> patch_private_todos env0 None None store0 1 no_such_id (Some ''x'')
       = (res 404 (Error ''Not Found''), store0)
   \<and> delete_private_todos env0 None None store0 1 no_such_id
       = (res 404 (Error ''Not Found''), store0)
   \<and> getTodo env0 None store0 milk_id = Inr milk
   \<and> delete_private_todos env0 None None store0 1 milk_id
       = (res 200 (Message ''OK''), store0\<lparr>todos := []\<rparr>)"
proof -
  have a: "''7'' \<noteq> []" "no_such_id \<noteq> []" "milk_id \<noteq> []"
    by (simp_all add: no_such_id_def milk_id_def)
  have b: "\<not> ObjectId_isValid env0 ''7''"
    by (simp add: ObjectId_isValid_def env0_def hex24_def)
  have c: "ObjectId_parse env0 no_such_id = Some 9 \<and> 9 \<notin> t_id ` set (todos store0)"
    by (simp add: no_such_id_def sample_defs)
  have d: "ObjectId_parse env0 milk_id = Some 7
      \<and> find (\<lambda>t. t_id t = 7) (todos store0) = Some milk"
    by (simp add: sample_defs)
  have e: "remove1 milk (todos store0) = []" by (simp add: store0_def)
  show ?thesis
    using C9_fetch_by_id_and_delete [OF a(1), of env0 "Some ''down''" store0 None 1]
      C9_fetch_by_id_and_delete [OF a(2), of env0 None store0 None 1 "Some ''x''" 9]
      C9_fetch_by_id_and_delete [OF a(3), of env0 None store0 None 1 None 7 milk]
      b c d e
    by simp
qed

section \<open>Logging in\<close>

text \<open>
  Claim C2, as amended. Take a login request whose e-mail and password are non-empty
  strings \<open>x\<close> and \<open>pw\<close>, and let the look-up go through. If e-mails are unique in the
  store and a user has e-mail \<open>x\<close> and the digest of \<open>pw\<close> as password, the answer is 200
  with a token signed with the server's secret whose subject is that user's identifier;
  the same token is the \<open>accessToken\<close> of the body and the cookie \<open>user\<close>. If no user has
  \<open>x\<close> together with the digest of \<open>pw\<close>, the answer is 401 \<open>Invalid credentials\<close>, the
  same response whether some user has the e-mail \<open>x\<close> (store \<open>s\<close>) or none has (store
  \<open>s'\<close>). A request whose e-mail or password is absent or falsy (the empty string,
  \<open>null\<close>, \<open>false\<close>, \<open>0\<close>) is answered 400 \<open>Bad request\<close>, whatever the store holds and
  whatever the driver does. Nothing is said of a truthy e-mail or password that is not a
  string.
\<close>

theorem C2_login:
  assumes "x \<noteq> []" and "pw \<noteq> []"
  shows "(distinct (map email (user_infos s)) \<and> u \<in> set (user_infos s) \<and> email u = x
            \<and> password u = createHashedPassword e pw \<longrightarrow>
            post_public_login e now None s (JString x) (JString pw) =
              \<lparr>status = 200,
               body = AccessToken
                 (jwt_sign \<lparr>iss = JWT_ISSUER e, aud = JWT_AUDIENCE e, sub = u_id u\<rparr>
                    (JWT_TOKEN_SECRET e) (JWT_ACCESS_TOKEN_EXPIRES_IN e) now),
               cookies = [(''user'',
                 jwt_sign \<lparr>iss = JWT_ISSUER e, aud = JWT_AUDIENCE e, sub = u_id u\<rparr>
                    (JWT_TOKEN_SECRET e) (JWT_ACCESS_TOKEN_EXPIRES_IN e) now)]\<rparr>
          \<and> sub (jwt_claims
                 (jwt_sign \<lparr>iss = JWT_ISSUER e, aud = JWT_AUDIENCE e, sub = u_id u\<rparr>
                    (JWT_TOKEN_SECRET e) (JWT_ACCESS_TOKEN_EXPIRES_IN e) now)) = u_id u
          \<and> jwt_key
                 (jwt_sign \<lparr>iss = JWT_ISSUER e, aud = JWT_AUDIENCE e, sub = u_id u\<rparr>
                    (JWT_TOKEN_SECRET e) (JWT_ACCESS_TOKEN_EXPIRES_IN e) now) = JWT_TOKEN_SECRET e)
       \<and> ((\<forall>v\<in>set (user_infos s). email v = x \<longrightarrow> password v \<noteq> createHashedPassword e pw) \<longrightarrow>
            post_public_login e now None s (JString x) (JString pw)
              = res 401 (Error ''Invalid credentials''))
       \<and> ((\<forall>v\<in>set (user_infos s). email v = x \<longrightarrow> password v \<noteq> createHashedPassword e pw)
            \<and> x \<notin> email ` set (user_infos s') \<longrightarrow>
            post_public_login e now None s (JString x) (JString pw)
              = post_public_login e now None s' (JString x) (JString pw))
       \<and> (\<not> js_truthy em \<or> \<not> js_truthy p \<longrightarrow>
            post_public_login e now f s em p = res 400 (Error ''Bad request''))"
proof -
  let ?q = "\<lambda>v. email v = x \<and> password v = createHashedPassword e pw"
  have run: "post_public_login e now None t (JString x) (JString pw) =
      (case find ?q (user_infos t) of
         Some user \<Rightarrow>
           \<lparr>status = 200,
            body = AccessToken
              (jwt_sign \<lparr>iss = JWT_ISSUER e, aud = JWT_AUDIENCE e, sub = u_id user\<rparr>
                 (JWT_TOKEN_SECRET e) (JWT_ACCESS_TOKEN_EXPIRES_IN e) now),
            cookies = [(''user'',
              jwt_sign \<lparr>iss = JWT_ISSUER e, aud = JWT_AUDIENCE e, sub = u_id user\<rparr>
                 (JWT_TOKEN_SECRET e) (JWT_ACCESS_TOKEN_EXPIRES_IN e) now)]\<rparr>
       | None \<Rightarrow> res 401 (Error ''Invalid credentials''))" for t
    using assms
    by (simp add: post_public_login_def createHashedPassword_js_def email_query_def
        UserInfo_findOne_def await_def Let_def split: option.split)
  have ok: "post_public_login e now None s (JString x) (JString pw) =
              \<lparr>status = 200,
               body = AccessToken
                 (jwt_sign \<lparr>iss = JWT_ISSUER e, aud = JWT_AUDIENCE e, sub = u_id u\<rparr>
                    (JWT_TOKEN_SECRET e) (JWT_ACCESS_TOKEN_EXPIRES_IN e) now),
               cookies = [(''user'',
                 jwt_sign \<lparr>iss = JWT_ISSUER e, aud = JWT_AUDIENCE e, sub = u_id u\<rparr>
                    (JWT_TOKEN_SECRET e) (JWT_ACCESS_TOKEN_EXPIRES_IN e) now)]\<rparr>"
    if d: "distinct (map email (user_infos s))" and m: "u \<in> set (user_infos s)"
      and em: "email u = x" and p: "password u = createHashedPassword e pw"
  proof -
    have "find (\<lambda>y. email y = email u \<and> password y = createHashedPassword e pw) (user_infos s)
        = Some u"
      using d m p by (rule find_by_key)
    then have "find ?q (user_infos s) = Some u" by (simp add: em)
    then show ?thesis by (simp add: run)
  qed
  have none: "post_public_login e now None t (JString x) (JString pw)
      = res 401 (Error ''Invalid credentials'')"
    if "\<forall>v\<in>set (user_infos t). email v = x \<longrightarrow> password v \<noteq> createHashedPassword e pw" for t
  proof -
    from that have "find ?q (user_infos t) = None" by (auto simp: find_None_set)
    then show ?thesis by (simp add: run)
  qed
  have absent: "\<forall>v\<in>set (user_infos s'). email v = x \<longrightarrow> password v \<noteq> createHashedPassword e pw"
    if "x \<notin> email ` set (user_infos s')"
    using that by auto
  have tok: "sub (jwt_claims
                 (jwt_sign \<lparr>iss = JWT_ISSUER e, aud = JWT_AUDIENCE e, sub = u_id u\<rparr>
                    (JWT_TOKEN_SECRET e) (JWT_ACCESS_TOKEN_EXPIRES_IN e) now)) = u_id u"
     "jwt_key
                 (jwt_sign \<lparr>iss = JWT_ISSUER e, aud = JWT_AUDIENCE e, sub = u_id u\<rparr>
                    (JWT_TOKEN_SECRET e) (JWT_ACCESS_TOKEN_EXPIRES_IN e) now) = JWT_TOKEN_SECRET e"
    by (simp_all add: jwt_sign_def)
  have guard: "\<not> js_truthy em \<or> \<not> js_truthy p \<longrightarrow>
      post_public_login e now f s em p = res 400 (Error ''Bad request'')"
    by (simp add: post_public_login_def)
  have same: "post_public_login e now None s (JString x) (JString pw)
        = post_public_login e now None s' (JString x) (JString pw)"
    if "\<forall>v\<in>set (user_infos s). email v = x \<longrightarrow> password v \<noteq> createHashedPassword e pw"
      and "x \<notin> email ` set (user_infos s')"
    using that by (simp add: none absent)
  from ok none same tok guard show ?thesis by blast
qed

text \<open>
  Alice logs in with her password, then with a wrong one; the second answer is the one
  a store without Alice gives. A \<open>null\<close> password and an absent e-mail are refused.
\<close>

theorem C2_login_witness:
  "post_public_login env0 100 None store0 (JString ''a@b.com'') (JString ''p1'')
     = \<lparr>status = 200, body = AccessToken token0, cookies = [(''user'', token0)]\<rparr>
   \<and> sub (jwt_claims token0) = u_id alice
   \<and> post_public_login env0 100 None store0 (JString ''a@b.com'') (JString ''guess'')
     = res 401 (Error ''Invalid credentials'')
   \<and> post_public_login env0 100 None store0 (JString ''a@b.com'') (JString ''guess'')
     = post_public_login env0 100 None store1 (JString ''a@b.com'') (JString ''guess'')
   \<and> post_public_login env0 100 (Some ''down'') store0 (JString ''a@b.com'') JNull
     = res 400 (Error ''Bad request'')
   \<and> post_public_login env0 100 (Some ''down'') store0 JUndefined (JString ''p1'')
     = res 400 (Error ''Bad request'')"
proof -
  have ne: "''a@b.com'' \<noteq> []" "''p1'' \<noteq> []" "''guess'' \<noteq> []" by simp_all
  have reg: "distinct (map email (user_infos store0)) \<and> alice \<in> set (user_infos store0)
      \<and> email alice = ''a@b.com'' \<and> password alice = createHashedPassword env0 ''p1''"
    by (simp add: store0_def alice_def bob_def createHashedPassword_def env0_def)
  have wrong: "\<forall>v\<in>set (user_infos store0). email v = ''a@b.com''
      \<longrightarrow> password v \<noteq> createHashedPassword env0 ''guess''"
    by (simp add: store0_def alice_def bob_def createHashedPassword_def env0_def)
  have gone: "''a@b.com'' \<notin> email ` set (user_infos store1)"
    by (simp add: store1_def bob_def)
  have tok: "jwt_sign \<lparr>iss = JWT_ISSUER env0, aud = JWT_AUDIENCE env0, sub = u_id alice\<rparr>
      (JWT_TOKEN_SECRET env0) (JWT_ACCESS_TOKEN_EXPIRES_IN env0) 100 = token0"
    by (simp add: jwt_sign_def env0_def alice_def token0_def)
  have falsy: "\<not> js_truthy JNull" "\<not> js_truthy JUndefined" by simp_all
  note right = C2_login [OF ne(1) ne(2), of store0 alice env0 100 store1
      "JString ''a@b.com''" JNull "Some ''down''"]
  note guess = C2_login [OF ne(1) ne(3), of store0 alice env0 100 store1
      JUndefined "JString ''p1''" "Some ''down''"]
  have c1: "post_public_login env0 100 None store0 (JString ''a@b.com'') (JString ''p1'')
     = \<lparr>status = 200, body = AccessToken token0, cookies = [(''user'', token0)]\<rparr>"
    using right reg unfolding tok by blast
  have c2: "sub (jwt_claims token0) = u_id alice"
    using right reg unfolding tok by blast
  have c3: "post_public_login env0 100 None store0 (JString ''a@b.com'') (JString ''guess'')
     = res 401 (Error ''Invalid credentials'')"
    using guess wrong by blast
  have c4: "post_public_login env0 100 None store0 (JString ''a@b.com'') (JString ''guess'')
     = post_public_login env0 100 None store1 (JString ''a@b.com'') (JString ''guess'')"
    using guess wrong gone by blast
  have c5: "post_public_login env0 100 (Some ''down'') store0 (JString ''a@b.com'') JNull
     = res 400 (Error ''Bad request'')"
    using right falsy by blast
  have c6: "post_public_login env0 100 (Some ''down'') store0 JUndefined (JString ''p1'')
     = res 400 (Error ''Bad request'')"
    using guess falsy by blast
  from c1 c2 c3 c4 c5 c6 show ?thesis by blast
qed

text \<open>
  Claim C2 as stated speaks of every login request and says 401 for every wrong
  password. Three requests on the sample store, none with Alice's e-mail and password:
  the empty password is answered 400, by the guard on missing fields; the password
  \<open>123\<close>, a number, is answered 500, because the digest throws; and the e-mail
  \<open>{"$ne": null}\<close> with the password \<open>p1\<close> is answered 200 with a token for Alice, because
  the query operator reaches the store and every stored e-mail satisfies it.
\<close>

theorem C2_login_counterexample:
  "email alice = ''a@b.com'' \<and> alice \<in> set (user_infos store0)
   \<and> password alice \<noteq> createHashedPassword env0 []
   \<and> post_public_login env0 100 None store0 (JString ''a@b.com'') (JString [])
       = res 400 (Error ''Bad request'')
   \<and> status (post_public_login env0 100 None store0 (JString ''a@b.com'') (JNumber 123)) = 500
   \<and> post_public_login env0 100 None store0 (JObject [(''$ne'', JNull)]) (JString ''p1'')
       = \<lparr>status = 200, body = AccessToken token0, cookies = [(''user'', token0)]\<rparr>"
  by (simp add: post_public_login_def createHashedPassword_js_def email_query_def
      UserInfo_findOne_def await_def createHashedPassword_def jwt_sign_def res_def Let_def
      env0_def store0_def alice_def bob_def token0_def)

section \<open>Who may update and delete a todo\<close>

text \<open>
  Claim C1 says that update and delete only touch todos whose owner is the caller. The
  two routes never compare \<open>userId\<close> with the caller. On the sample store the only todo
  belongs to Alice (identifier 1). Bob (identifier 2) does not see it in his list, yet
  his update request changes its content and his delete request removes it, both
  answered 200.
\<close>

theorem C1_any_caller_updates_and_deletes:
  "userId milk = Some 1
   \<and> get_private None store0 2 = res 404 (Error ''Not Found'')
   \<and> patch_private_todos env0 None None store0 2 milk_id (Some ''pwned'')
     = (res 200 (Message ''OK''), store0\<lparr>todos := [milk\<lparr>content := Some ''pwned''\<rparr>]\<rparr>)
   \<and> delete_private_todos env0 None None store0 2 milk_id
     = (res 200 (Message ''OK''), store0\<lparr>todos := []\<rparr>)"
  by (simp add: patch_private_todos_def delete_private_todos_def getTodo_def get_private_def
      ObjectId_isValid_def store_defs truthy_def String_def sample_defs)

end
